theory Spec2Isabelle
  imports Complex_Main
begin

section \<open>The range trading strategy of \<^verbatim>\<open>range_strategy.py\<close>\<close>

text \<open>
  The class \<^verbatim>\<open>RangeStrategy\<close> is embedded as a record of its attributes and one
  function per method. A method that can raise before it has written any attribute
  returns \<open>py_error + _\<close>, with \<open>Inl\<close> the exception; \<^verbatim>\<open>calculate_indicators\<close> and
  \<^verbatim>\<open>update_market_data\<close>, which can raise after they have written some, return the
  exception (if any) together with the attributes they leave behind.

  Modelling conventions, each fixed by the source and the libraries it calls:
  \<^item> The frame \<^verbatim>\<open>historical_data\<close> is a list of rows, each with its index label.
    \<^verbatim>\<open>pd.concat\<close> is called without \<^verbatim>\<open>ignore_index\<close>, so the one-row frame it
    appends keeps its label 0.
  \<^item> An indicator is a pandas Series: the values TA-Lib computes, on the index of the
    frame. \<^verbatim>\<open>series[-1]\<close> on an integer index looks the label \<open>- 1\<close> up: it raises
    \<^verbatim>\<open>KeyError\<close> when no row carries that label, gives the value when one does and a
    sub-series when several do. Subscripting \<^verbatim>\<open>None\<close> raises \<^verbatim>\<open>TypeError\<close>.
  \<^item> A float is a real number or NaN; every comparison with NaN is false. Arithmetic
    on numbers is exact: rounding and overflow are not modelled.
  \<^item> An arithmetic operation or an ordering comparison with \<^verbatim>\<open>None\<close> raises
    \<^verbatim>\<open>TypeError\<close>.
  \<^item> \<^verbatim>\<open>datetime.now()\<close> is an argument \<open>now\<close>, in seconds; its time of day is
    \<open>now mod 86400\<close>.
  \<^item> TA-Lib and the Interactive Brokers session are collaborators outside the
    repository. The four TA-Lib functions are a parameter record; each may raise. The
    session is a record holding the account summary, the reply of the gateway to each
    order and the list of orders placed so far.
  \<^item> Indicator periods and the trade counter are counts (\<open>nat\<close>).
  \<^item> The configuration record is the dictionary that \<^verbatim>\<open>_validate_config\<close> returns, read
    through its fifteen keys.
  \<^item> \<^verbatim>\<open>run\<close>, an endless loop around the other methods, is not embedded; the relation
    \<open>step\<close> below stands for one call of any of them.
\<close>

subsection \<open>Values\<close>

text \<open>\<open>PyException\<close> is the plain \<^verbatim>\<open>Exception\<close> that TA-Lib raises on a bad argument.\<close>

datatype py_error =
  TypeError | IndexError | KeyError | ValueError | OverflowError | PyException

datatype pyfloat = Num real | NaN

text \<open>\<^verbatim>\<open>a > b\<close> and \<^verbatim>\<open>a <= b\<close> on floats where one side may be NaN.\<close>

fun float_gt :: "pyfloat \<Rightarrow> real \<Rightarrow> bool" where
  "float_gt (Num a) b = (a > b)"
| "float_gt NaN b = False"

fun float_le :: "real \<Rightarrow> pyfloat \<Rightarrow> bool" where
  "float_le a (Num b) = (a \<le> b)"
| "float_le a NaN = False"

text \<open>\<^verbatim>\<open>a * b\<close> and \<^verbatim>\<open>a - b\<close> with a series value on one side: NaN stays NaN.\<close>

fun float_mul :: "pyfloat \<Rightarrow> real \<Rightarrow> pyfloat" where
  "float_mul (Num a) b = Num (a * b)"
| "float_mul NaN b = NaN"

fun float_sub :: "real \<Rightarrow> pyfloat \<Rightarrow> pyfloat" where
  "float_sub a (Num b) = Num (a - b)"
| "float_sub a NaN = NaN"

text \<open>
  \<^verbatim>\<open>math.floor(a / b)\<close> where \<open>b\<close> is a \<^verbatim>\<open>numpy.float64\<close>, as the product of a series
  value and a float is. Division by a zero of that type does not raise: it gives an
  infinity, or NaN for \<open>0 / 0\<close>, and \<^verbatim>\<open>math.floor\<close> raises \<^verbatim>\<open>OverflowError\<close> on the
  one and \<^verbatim>\<open>ValueError\<close> on the other.
\<close>

definition floor_div :: "real \<Rightarrow> pyfloat \<Rightarrow> py_error + int" where
  "floor_div a b =
     (case b of NaN \<Rightarrow> Inl ValueError
      | Num d \<Rightarrow>
          if d = 0 then (if a = 0 then Inl ValueError else Inl OverflowError)
          else Inr \<lfloor>a / d\<rfloor>)"

definition time_of_day :: "int \<Rightarrow> int" where
  "time_of_day now = now mod 86400"

subsection \<open>Series\<close>

record series =
  ser_index :: "int list"
  ser_values :: "pyfloat list"

datatype lookup = Missing | Scalar pyfloat | Several

text \<open>\<^verbatim>\<open>series[k]\<close> for an integer \<open>k\<close>: the rows labelled \<open>k\<close>.\<close>

definition getitem :: "series \<Rightarrow> int \<Rightarrow> lookup" where
  "getitem ser k =
     (case map snd (filter (\<lambda>row. fst row = k) (zip (ser_index ser) (ser_values ser))) of
        [] \<Rightarrow> Missing
      | [v] \<Rightarrow> Scalar v
      | _ \<Rightarrow> Several)"

subsection \<open>Data\<close>

record bar =
  bar_time :: int
  bar_open :: real
  bar_high :: real
  bar_low :: real
  bar_close :: real
  bar_volume :: real

record strategy_config =
  adx_period :: nat
  adx_threshold :: real
  bollinger_ma_period :: nat
  bollinger_std_dev :: real
  rsi_period :: nat
  rsi_oversold :: real
  rsi_overbought :: real
  atr_period :: nat
  stop_loss_atr_multiplier :: real
  profit_target_pct :: real
  risk_per_trade_pct :: real
  max_trades_per_day :: nat
  daily_loss_limit_pct :: real
  trade_start_time :: int
  trade_end_time :: int

text \<open>The table \<^verbatim>\<open>defaults\<close> of \<^verbatim>\<open>_validate_config\<close>; 09:35 and 15:55 in seconds.\<close>

definition defaults :: strategy_config where
  "defaults = \<lparr> adx_period = 14, adx_threshold = 20, bollinger_ma_period = 20,
     bollinger_std_dev = 2, rsi_period = 14, rsi_oversold = 30, rsi_overbought = 70,
     atr_period = 14, stop_loss_atr_multiplier = 3 / 2, profit_target_pct = 15 / 1000,
     risk_per_trade_pct = 1 / 100, max_trades_per_day = 5, daily_loss_limit_pct = 2 / 100,
     trade_start_time = 34500, trade_end_time = 57300 \<rparr>"

record open_position =
  entry_price :: real
  quantity :: int
  stop_price :: pyfloat
  target_price :: real
  entry_time :: int

record trade_details =
  td_symbol :: string
  td_entry_price :: real
  td_exit_price :: real
  td_quantity :: int
  td_pnl :: real
  td_duration :: real
  td_reason :: string

record bands =
  bb_upper :: series
  bb_middle :: series
  bb_lower :: series

datatype order =
    MarketOrder string int
  | LimitOrder string int real
  | StopOrder string int pyfloat

datatype gateway_reply = Accepted | Rejected

text \<open>
  \<open>account_summary\<close> is what \<^verbatim>\<open>accountSummary('TotalCashValue')\<close> returns: for each
  item the number that \<^verbatim>\<open>float\<close> reads from its value, \<open>None\<close> for a value that
  \<^verbatim>\<open>float\<close> refuses.
\<close>

record ib_session =
  account_summary :: "real option list"
  reply :: "order \<Rightarrow> gateway_reply"
  placed :: "order list"

record talib =
  talib_ADX :: "real list \<Rightarrow> real list \<Rightarrow> real list \<Rightarrow> nat \<Rightarrow> py_error + pyfloat list"
  talib_BBANDS :: "real list \<Rightarrow> nat \<Rightarrow> real \<Rightarrow> real
                   \<Rightarrow> py_error + (pyfloat list \<times> pyfloat list \<times> pyfloat list)"
  talib_RSI :: "real list \<Rightarrow> nat \<Rightarrow> py_error + pyfloat list"
  talib_ATR :: "real list \<Rightarrow> real list \<Rightarrow> real list \<Rightarrow> nat \<Rightarrow> py_error + pyfloat list"

record strategy =
  ib :: ib_session
  symbol :: string
  config :: strategy_config
  position :: "open_position option"
  historical_data :: "(int \<times> bar) list"
  current_price :: "real option"
  latest_empty :: bool
  adx :: "series option"
  bollinger :: "bands option"
  rsi :: "series option"
  atr :: "series option"
  trades_today :: nat
  daily_pnl :: real
  last_trade :: "trade_details option"
  trade_log :: "trade_details list"

text \<open>
  \<^verbatim>\<open>__init__\<close>. The field \<open>trade_log\<close> is not an attribute of the class: it collects
  the records that \<^verbatim>\<open>close_position\<close> hands to \<^verbatim>\<open>logger.info\<close>.
\<close>

definition init :: "ib_session \<Rightarrow> string \<Rightarrow> strategy_config \<Rightarrow> strategy" where
  "init i name cfg = \<lparr> ib = i, symbol = name, config = cfg, position = None,
     historical_data = [], current_price = None, latest_empty = False, adx = None,
     bollinger = None, rsi = None, atr = None, trades_today = 0, daily_pnl = 0,
     last_trade = None, trade_log = [] \<rparr>"

subsection \<open>Market data and indicators\<close>

text \<open>The largest of the three periods that both methods below take the maximum of.\<close>

definition max_period :: "strategy_config \<Rightarrow> nat" where
  "max_period c = max (max (adx_period c) (bollinger_ma_period c)) (rsi_period c)"

text \<open>The index of the frame and one of its columns.\<close>

definition frame_index :: "(int \<times> bar) list \<Rightarrow> int list" where
  "frame_index rows = map fst rows"

definition column :: "(bar \<Rightarrow> real) \<Rightarrow> (int \<times> bar) list \<Rightarrow> real list" where
  "column field rows = map (\<lambda>row. field (snd row)) rows"

text \<open>
  \<^verbatim>\<open>calculate_indicators\<close>: the four assignments in the order of the source. A TA-Lib
  call that raises ends the method and leaves the earlier assignments in place.
\<close>

definition calculate_indicators_run :: "talib \<Rightarrow> strategy \<Rightarrow> py_error option \<times> strategy" where
  "calculate_indicators_run ta s =
     (if length (historical_data s) < max_period (config s) then (None, s)
      else
        (let idx = frame_index (historical_data s);
             highs = column bar_high (historical_data s);
             lows = column bar_low (historical_data s);
             closes = column bar_close (historical_data s);
             c = config s
         in (case talib_ADX ta highs lows closes (adx_period c) of
               Inl e \<Rightarrow> (Some e, s)
             | Inr a \<Rightarrow>
              (let s1 = s\<lparr> adx := Some \<lparr> ser_index = idx, ser_values = a \<rparr> \<rparr>
               in (case talib_BBANDS ta closes (bollinger_ma_period c)
                          (bollinger_std_dev c) (bollinger_std_dev c) of
                     Inl e \<Rightarrow> (Some e, s1)
                   | Inr (upper, middle, lower) \<Rightarrow>
                    (let s2 = s1\<lparr> bollinger := Some
                                 \<lparr> bb_upper = \<lparr> ser_index = idx, ser_values = upper \<rparr>,
                                   bb_middle = \<lparr> ser_index = idx, ser_values = middle \<rparr>,
                                   bb_lower = \<lparr> ser_index = idx, ser_values = lower \<rparr> \<rparr> \<rparr>
                     in (case talib_RSI ta closes (rsi_period c) of
                           Inl e \<Rightarrow> (Some e, s2)
                         | Inr r \<Rightarrow>
                          (let s3 = s2\<lparr> rsi := Some \<lparr> ser_index = idx, ser_values = r \<rparr> \<rparr>
                           in (case talib_ATR ta highs lows closes (atr_period c) of
                                 Inl e \<Rightarrow> (Some e, s3)
                               | Inr t \<Rightarrow>
                                  (None, s3\<lparr> atr := Some \<lparr> ser_index = idx,
                                                           ser_values = t \<rparr> \<rparr>))))))))))"

text \<open>The strategy after the call, whether it returned or raised.\<close>

definition calculate_indicators :: "talib \<Rightarrow> strategy \<Rightarrow> strategy" where
  "calculate_indicators ta s = snd (calculate_indicators_run ta s)"

text \<open>\<^verbatim>\<open>DataFrame.tail(n)\<close>: the last \<open>n\<close> rows, all of them when there are fewer.\<close>

definition tail :: "nat \<Rightarrow> 'a list \<Rightarrow> 'a list" where
  "tail n xs = drop (length xs - n) xs"

definition update_market_data_run :: "talib \<Rightarrow> strategy \<Rightarrow> bar \<Rightarrow> py_error option \<times> strategy" where
  "update_market_data_run ta s b =
     calculate_indicators_run ta
       (s\<lparr> historical_data :=
              tail (max_period (config s) + 20) (historical_data s @ [(0, b)]),
            current_price := Some (bar_close b) \<rparr>)"

text \<open>The strategy after the call, whether it returned or raised.\<close>

definition update_market_data :: "talib \<Rightarrow> strategy \<Rightarrow> bar \<Rightarrow> strategy" where
  "update_market_data ta s b = snd (update_market_data_run ta s b)"

subsection \<open>Entry rule and position sizing\<close>

text \<open>
  A sub-series in a condition raises \<^verbatim>\<open>ValueError\<close> (its truth value is ambiguous).
\<close>

definition evaluate_entry :: "int \<Rightarrow> strategy \<Rightarrow> py_error + bool" where
  "evaluate_entry now s =
     (if position s \<noteq> None then Inr False
      else (case adx s of None \<Rightarrow> Inl TypeError | Some adx_series \<Rightarrow>
       (case getitem adx_series (- 1) of
          Missing \<Rightarrow> Inl KeyError
        | Several \<Rightarrow> Inl ValueError
        | Scalar adx_last \<Rightarrow>
        (if float_gt adx_last (adx_threshold (config s)) then Inr False
         else (case bollinger s of None \<Rightarrow> Inl TypeError | Some bb \<Rightarrow>
          (case getitem (bb_lower bb) (- 1) of
             Missing \<Rightarrow> Inl KeyError
           | Several \<Rightarrow>
              (case current_price s of None \<Rightarrow> Inl TypeError | Some price \<Rightarrow> Inl ValueError)
           | Scalar lower_last \<Rightarrow>
           (case current_price s of None \<Rightarrow> Inl TypeError | Some price \<Rightarrow>
            (if \<not> float_le price lower_last then Inr False
             else (case rsi s of None \<Rightarrow> Inl TypeError | Some rsi_series \<Rightarrow>
              (case getitem rsi_series (- 1) of
                 Missing \<Rightarrow> Inl KeyError
               | Several \<Rightarrow> Inl ValueError
               | Scalar rsi_last \<Rightarrow>
               (if float_gt rsi_last (rsi_oversold (config s)) then Inr False
                else if \<not> (trade_start_time (config s) \<le> time_of_day now
                            \<and> time_of_day now \<le> trade_end_time (config s))
                  then Inr False
                else if trades_today s \<ge> max_trades_per_day (config s) then Inr False
                else if daily_pnl s \<le> - daily_loss_limit_pct (config s) then Inr False
                else Inr True)))))))))))"

text \<open>
  \<^verbatim>\<open>calculate_position_size\<close>. The argument \<^verbatim>\<open>price\<close> is not used by the method. The
  first item of the account summary is read before the series; \<^verbatim>\<open>math.floor\<close> of a
  sub-series raises \<^verbatim>\<open>TypeError\<close>.
\<close>

definition calculate_position_size :: "strategy \<Rightarrow> real option \<Rightarrow> py_error + int" where
  "calculate_position_size s price =
     (case account_summary (ib s) of [] \<Rightarrow> Inl IndexError
      | item # _ \<Rightarrow>
       (case item of None \<Rightarrow> Inl ValueError | Some account_value \<Rightarrow>
        (let risk_amount = account_value * risk_per_trade_pct (config s)
         in (case atr s of None \<Rightarrow> Inl TypeError | Some atr_series \<Rightarrow>
          (case getitem atr_series (- 1) of
             Missing \<Rightarrow> Inl KeyError
           | Several \<Rightarrow> Inl TypeError
           | Scalar atr_last \<Rightarrow>
              (let stop_distance = float_mul atr_last (stop_loss_atr_multiplier (config s))
               in floor_div risk_amount stop_distance))))))"

subsection \<open>Orders and the position\<close>

definition placeOrder :: "order \<Rightarrow> strategy \<Rightarrow> gateway_reply \<times> strategy" where
  "placeOrder ord s = (reply (ib s) ord, s\<lparr> ib := (ib s)\<lparr> placed := placed (ib s) @ [ord] \<rparr> \<rparr>)"

text \<open>
  \<^verbatim>\<open>execute_trade\<close>. The reply to the parent order is bound to \<^verbatim>\<open>trade\<close> and never
  read; the replies to the two child orders are dropped. The second lookup of
  \<^verbatim>\<open>atr[-1]\<close> gives what the first gave; the branch of a sub-series is never taken,
  since \<^verbatim>\<open>calculate_position_size\<close> has raised on it.
\<close>

definition execute_trade :: "int \<Rightarrow> strategy \<Rightarrow> py_error + strategy" where
  "execute_trade now s =
     (case evaluate_entry now s of Inl e \<Rightarrow> Inl e
      | Inr False \<Rightarrow> Inr s
      | Inr True \<Rightarrow>
       (case calculate_position_size s (current_price s) of Inl e \<Rightarrow> Inl e | Inr qty \<Rightarrow>
        (if qty \<le> 0 then Inr s
         else (case atr s of None \<Rightarrow> Inl TypeError | Some atr_series \<Rightarrow>
          (case getitem atr_series (- 1) of
             Missing \<Rightarrow> Inl KeyError
           | Several \<Rightarrow> Inl TypeError
           | Scalar atr_last \<Rightarrow>
           (case current_price s of None \<Rightarrow> Inl TypeError | Some price \<Rightarrow>
             (let stop = float_sub price
                           (float_mul atr_last (stop_loss_atr_multiplier (config s)));
                  target = price * (1 + profit_target_pct (config s));
                  (trade, s1) = placeOrder (MarketOrder ''BUY'' qty) s;
                  (_, s2) = placeOrder (LimitOrder ''SELL'' qty target) s1;
                  (_, s3) = placeOrder (StopOrder ''SELL'' qty stop) s2
              in Inr (s3\<lparr> position := Some \<lparr> entry_price = price, quantity = qty,
                                stop_price = stop, target_price = target,
                                entry_time = now \<rparr>,
                            trades_today := trades_today s3 + 1 \<rparr>))))))))"

definition close_position :: "int \<Rightarrow> string \<Rightarrow> strategy \<Rightarrow> py_error + strategy" where
  "close_position now why s =
     (case position s of None \<Rightarrow> Inr s | Some p \<Rightarrow>
      (case current_price s of None \<Rightarrow> Inl TypeError | Some exit_price \<Rightarrow>
        let pnl = (exit_price - entry_price p) * real_of_int (quantity p);
            details = \<lparr> td_symbol = symbol s, td_entry_price = entry_price p,
                        td_exit_price = exit_price, td_quantity = quantity p,
                        td_pnl = pnl, td_duration = real_of_int (now - entry_time p),
                        td_reason = why \<rparr>
        in Inr (s\<lparr> daily_pnl := daily_pnl s + pnl, position := None,
                    last_trade := Some details,
                    trade_log := trade_log s @ [details] \<rparr>)))"

definition manage_position :: "int \<Rightarrow> strategy \<Rightarrow> py_error + strategy" where
  "manage_position now s =
     (case position s of None \<Rightarrow> Inr s | Some p \<Rightarrow>
      (case current_price s of None \<Rightarrow> Inl TypeError | Some price \<Rightarrow>
        if float_le price (stop_price p) then close_position now ''stop'' s
        else if price \<ge> target_price p then close_position now ''target'' s
        else Inr s))"

subsection \<open>The methods as transitions\<close>

text \<open>
  One step is one call of a method that leaves the strategy in a new state: a call of
  \<^verbatim>\<open>calculate_indicators\<close> or \<^verbatim>\<open>update_market_data\<close>, whether it returns or raises,
  or a call of one of the other three that returns (when they raise they have
  written nothing). The class has no other method that writes its attributes
  (\<^verbatim>\<open>run\<close> only calls these).
\<close>

inductive step :: "strategy \<Rightarrow> strategy \<Rightarrow> bool" where
  step_indicators: "step s (calculate_indicators ta s)"
| step_bar: "step s (update_market_data ta s b)"
| step_trade: "execute_trade now s = Inr s' \<Longrightarrow> step s s'"
| step_manage: "manage_position now s = Inr s' \<Longrightarrow> step s s'"
| step_close: "close_position now why s = Inr s' \<Longrightarrow> step s s'"

definition returned :: "py_error + 'a \<Rightarrow> 'a option" where
  "returned r = (case r of Inl _ \<Rightarrow> None | Inr x \<Rightarrow> Some x)"

text \<open>Every row of the frame, and so every row of a series computed on it, has label 0.\<close>

definition zero_labelled :: "series \<Rightarrow> bool" where
  "zero_labelled ser = (set (ser_index ser) \<subseteq> {0})"

definition zero_labelled_opt :: "series option \<Rightarrow> bool" where
  "zero_labelled_opt x = (case x of None \<Rightarrow> True | Some ser \<Rightarrow> zero_labelled ser)"

definition zero_labelled_bands :: "bands option \<Rightarrow> bool" where
  "zero_labelled_bands x =
     (case x of None \<Rightarrow> True
      | Some bb \<Rightarrow> zero_labelled (bb_upper bb) \<and> zero_labelled (bb_middle bb)
                   \<and> zero_labelled (bb_lower bb))"

text \<open>
  What holds of a strategy made by \<^verbatim>\<open>__init__\<close> with session \<open>i\<close> after any calls of
  its methods: see \<open>untraded_reachable\<close> below.
\<close>

definition untraded :: "ib_session \<Rightarrow> strategy \<Rightarrow> bool" where
  "untraded i s =
     (ib s = i \<and> position s = None \<and> trades_today s = 0 \<and> daily_pnl s = 0
      \<and> last_trade s = None \<and> trade_log s = []
      \<and> set (map fst (historical_data s)) \<subseteq> {0}
      \<and> zero_labelled_opt (adx s) \<and> zero_labelled_bands (bollinger s)
      \<and> zero_labelled_opt (rsi s) \<and> zero_labelled_opt (atr s))"

subsection \<open>Test doubles and example states\<close>

text \<open>
  A TA-Lib double: on any input it returns series of the input's length, with trend
  15, bands around the close, momentum 25 and the volatility given. A double that
  refuses its arguments. A session with 100000 of cash whose gateway rejects every
  order.
\<close>

definition talib_double :: "real \<Rightarrow> talib" where
  "talib_double v = \<lparr>
     talib_ADX = (\<lambda>highs lows closes n. Inr (map (\<lambda>c. Num 15) closes)),
     talib_BBANDS = (\<lambda>closes n up dn.
        Inr (map (\<lambda>c. Num (c + 2)) closes, map Num closes, map (\<lambda>c. Num (c - 2)) closes)),
     talib_RSI = (\<lambda>closes n. Inr (map (\<lambda>c. Num 25) closes)),
     talib_ATR = (\<lambda>highs lows closes n. Inr (map (\<lambda>c. Num v) closes)) \<rparr>"

definition flat_talib :: talib where
  "flat_talib = talib_double 2"

definition refusing_talib :: talib where
  "refusing_talib = \<lparr>
     talib_ADX = (\<lambda>highs lows closes n. Inl PyException),
     talib_BBANDS = (\<lambda>closes n up dn. Inl PyException),
     talib_RSI = (\<lambda>closes n. Inl PyException),
     talib_ATR = (\<lambda>highs lows closes n. Inl PyException) \<rparr>"

definition rejecting_ib :: ib_session where
  "rejecting_ib = \<lparr> account_summary = [Some 100000], reply = (\<lambda>_. Rejected), placed = [] \<rparr>"

definition bar_at :: "int \<Rightarrow> real \<Rightarrow> bar" where
  "bar_at t c = \<lparr> bar_time = t, bar_open = c, bar_high = c, bar_low = c, bar_close = c,
     bar_volume = 1000 \<rparr>"

text \<open>
  Nineteen bars of history, one short of the default warm-up; then the twentieth, in
  a market of volatility 2 (\<open>ranging\<close>) and in one of volatility 0 (\<open>flat_market\<close>).
\<close>

definition warm :: strategy where
  "warm = (init rejecting_ib ''AAPL'' defaults)
     \<lparr> historical_data := replicate 19 (0, bar_at 35000 52), current_price := Some 52 \<rparr>"

definition ranging :: strategy where
  "ranging = update_market_data flat_talib warm (bar_at 36000 49)"

definition flat_market :: strategy where
  "flat_market = update_market_data (talib_double 0) warm (bar_at 36000 52)"

text \<open>After nineteen bars stamped 35000, one stamped 34000.\<close>

definition disordered :: strategy where
  "disordered = update_market_data flat_talib warm (bar_at 34000 49)"

definition example_position :: open_position where
  "example_position = \<lparr> entry_price = 100, quantity = 10, stop_price = Num 98,
     target_price = 105, entry_time = 36000 \<rparr>"

definition holding :: "real \<Rightarrow> strategy" where
  "holding price = ranging\<lparr> position := Some example_position,
     current_price := Some price, trades_today := 1 \<rparr>"

definition exhausted :: strategy where
  "exhausted = ranging\<lparr> trades_today := 5, daily_pnl := - 100 \<rparr>"

text \<open>The same strategy on a session whose gateway replies \<open>r\<close>.\<close>

definition with_reply :: "(order \<Rightarrow> gateway_reply) \<Rightarrow> strategy \<Rightarrow> strategy" where
  "with_reply r s = s\<lparr> ib := (ib s)\<lparr> reply := r \<rparr> \<rparr>"

section \<open>Properties\<close>

subsection \<open>Label lookups\<close>

lemma getitem_zero_labelled:
  assumes "zero_labelled ser" and "k \<noteq> 0"
  shows "getitem ser k = Missing"
proof -
  have "filter (\<lambda>row. fst row = k) (zip (ser_index ser) (ser_values ser)) = []"
    using assms by (auto simp: zero_labelled_def filter_empty_conv dest!: set_zip_leftD)
  then show ?thesis by (simp add: getitem_def)
qed

lemma zero_labelled_mk:
  "set idx \<subseteq> {0} \<Longrightarrow> zero_labelled \<lparr> ser_index = idx, ser_values = vs \<rparr>"
  by (simp add: zero_labelled_def)

lemma tail_labels:
  "set (map fst rows) \<subseteq> {0} \<Longrightarrow> set (map fst (tail n (rows @ [(0, b)]))) \<subseteq> {0}"
  by (auto simp: tail_def dest!: in_set_dropD)

subsection \<open>A strategy that has never traded\<close>

lemma untraded_init: "untraded i (init i name cfg)"
  by (simp add: untraded_def init_def zero_labelled_opt_def zero_labelled_bands_def)

lemma untraded_calculate_indicators:
  assumes "untraded i s"
  shows "untraded i (calculate_indicators ta s)"
  using assms
  by (auto simp: untraded_def calculate_indicators_def calculate_indicators_run_def Let_def
      frame_index_def zero_labelled_opt_def zero_labelled_bands_def zero_labelled_def
      split: sum.splits prod.splits)

lemma untraded_update_market_data:
  assumes "untraded i s"
  shows "untraded i (update_market_data ta s b)"
proof -
  have "untraded i (s\<lparr> historical_data :=
              tail (max_period (config s) + 20) (historical_data s @ [(0, b)]),
            current_price := Some (bar_close b) \<rparr>)"
    using assms tail_labels [of "historical_data s" "max_period (config s) + 20" b]
    by (simp add: untraded_def)
  then show ?thesis
    using untraded_calculate_indicators
    by (simp add: update_market_data_def update_market_data_run_def calculate_indicators_def)
qed

text \<open>
  On such a strategy \<^verbatim>\<open>evaluate_entry\<close> raises: on \<^verbatim>\<open>None\<close> before the first
  computation of the indicators, on the missing label afterwards.
\<close>

lemma untraded_evaluate_entry:
  assumes "untraded i s"
  shows "evaluate_entry now s = (if adx s = None then Inl TypeError else Inl KeyError)"
  using assms
  by (auto simp: untraded_def evaluate_entry_def zero_labelled_opt_def getitem_zero_labelled
      split: option.splits)

lemma untraded_execute_trade:
  assumes "untraded i s"
  shows "execute_trade now s = (if adx s = None then Inl TypeError else Inl KeyError)"
  using untraded_evaluate_entry [OF assms, of now] by (simp add: execute_trade_def)

lemma untraded_manage_close:
  assumes "untraded i s"
  shows "manage_position now s = Inr s" and "close_position now why s = Inr s"
  using assms by (simp_all add: untraded_def manage_position_def close_position_def)

lemma untraded_step:
  assumes "step s s'" and "untraded i s"
  shows "untraded i s'"
  using assms
proof (induction rule: step.induct)
  case (step_indicators s ta)
  then show ?case by (rule untraded_calculate_indicators)
next
  case (step_bar s ta b)
  then show ?case by (rule untraded_update_market_data)
next
  case (step_trade now s s')
  then show ?case using untraded_execute_trade [of i s now] by (simp split: if_splits)
next
  case (step_manage now s s')
  then show ?case using untraded_manage_close(1) [of i s now] by simp
next
  case (step_close now why s s')
  then show ?case using untraded_manage_close(2) [of i s now why] by simp
qed

lemma untraded_reachable:
  assumes "step\<^sup>*\<^sup>* (init i name cfg) s"
  shows "untraded i s"
  using assms
  by (induction rule: rtranclp_induct) (auto intro: untraded_init untraded_step)

lemma steps_foldl: "step\<^sup>*\<^sup>* s (foldl (update_market_data ta) s bars)"
proof (induction bars rule: rev_induct)
  case Nil
  show ?case by simp
next
  case (snoc b bars)
  have "step (foldl (update_market_data ta) s bars)
          (update_market_data ta (foldl (update_market_data ta) s bars) b)"
    by (rule step_bar)
  with snoc show ?case by simp
qed

subsection \<open>What each method leaves unchanged\<close>

lemma update_market_data_frame:
  "config (update_market_data ta s b) = config s"
  "position (update_market_data ta s b) = position s"
  "trades_today (update_market_data ta s b) = trades_today s"
  "daily_pnl (update_market_data ta s b) = daily_pnl s"
  "ib (update_market_data ta s b) = ib s"
  "symbol (update_market_data ta s b) = symbol s"
  "last_trade (update_market_data ta s b) = last_trade s"
  "trade_log (update_market_data ta s b) = trade_log s"
  "current_price (update_market_data ta s b) = Some (bar_close b)"
  "historical_data (update_market_data ta s b)
     = tail (max_period (config s) + 20) (historical_data s @ [(0, b)])"
  by (simp_all add: update_market_data_def update_market_data_run_def
      calculate_indicators_run_def Let_def split: sum.splits prod.splits)

lemma calculate_indicators_frame:
  "config (calculate_indicators ta s) = config s"
  "position (calculate_indicators ta s) = position s"
  "trades_today (calculate_indicators ta s) = trades_today s"
  "daily_pnl (calculate_indicators ta s) = daily_pnl s"
  "current_price (calculate_indicators ta s) = current_price s"
  "trade_log (calculate_indicators ta s) = trade_log s"
  by (simp_all add: calculate_indicators_def calculate_indicators_run_def Let_def
      split: sum.splits prod.splits)

lemma close_position_frame:
  assumes "close_position now why s = Inr s'"
  shows "config s' = config s" and "trades_today s' = trades_today s"
    and "position s' = None" and "current_price s' = current_price s" and "ib s' = ib s"
  using assms by (auto simp: close_position_def Let_def split: option.splits)

lemma manage_position_frame:
  assumes "manage_position now s = Inr s'"
  shows "config s' = config s" and "trades_today s' = trades_today s"
    and "current_price s' = current_price s" and "ib s' = ib s"
    and "position s' = None \<or> position s' = position s"
  using assms close_position_frame [of now _ s s']
  by (auto simp: manage_position_def split: option.splits if_splits)

text \<open>What a call of \<^verbatim>\<open>evaluate_entry\<close> that returns \<^verbatim>\<open>True\<close> has checked.\<close>

lemma evaluate_entry_True:
  assumes "evaluate_entry now s = Inr True"
  shows "position s = None" and "current_price s \<noteq> None"
    and "trades_today s < max_trades_per_day (config s)"
    and "- daily_loss_limit_pct (config s) < daily_pnl s"
  using assms
  by (auto simp: evaluate_entry_def split: if_splits option.splits lookup.splits)

lemma execute_trade_frame:
  assumes "execute_trade now s = Inr s'"
  shows "config s' = config s" and "current_price s' = current_price s"
    and "daily_pnl s' = daily_pnl s" and "trade_log s' = trade_log s"
    and "s' = s \<or> (evaluate_entry now s = Inr True \<and> trades_today s' = trades_today s + 1
                    \<and> position s' \<noteq> None)"
  using assms
  by (auto simp: execute_trade_def placeOrder_def Let_def
      split: sum.splits bool.splits option.splits if_splits lookup.splits)

lemma step_frame:
  assumes "step s s'"
  shows "config s' = config s" and "trades_today s \<le> trades_today s'"
    and "trades_today s' \<le> trades_today s + 1"
    and "max_trades_per_day (config s) \<le> trades_today s \<Longrightarrow> trades_today s' = trades_today s"
  using assms
proof (induction rule: step.induct)
  case (step_trade now s s')
  { case 1 show ?case using execute_trade_frame(1) [OF step_trade] . }
  { case 2 show ?case using execute_trade_frame(5) [OF step_trade] by auto }
  { case 3 show ?case using execute_trade_frame(5) [OF step_trade] by auto }
  { case 4 then show ?case
      using execute_trade_frame(5) [OF step_trade] evaluate_entry_True(3) [of now s] by auto }
qed (simp_all add: update_market_data_frame calculate_indicators_frame
      manage_position_frame close_position_frame)

text \<open>
  The only writer of \<open>daily_pnl\<close> is \<^verbatim>\<open>close_position\<close>, which adds the pnl of the
  trade it logs: the difference between \<open>daily_pnl\<close> and the logged pnl never changes.
\<close>

lemma close_position_pnl:
  assumes "close_position now why s = Inr s'"
  shows "daily_pnl s' - sum_list (map td_pnl (trade_log s'))
       = daily_pnl s - sum_list (map td_pnl (trade_log s))"
  using assms by (auto simp: close_position_def Let_def split: option.splits)

lemma manage_position_pnl:
  assumes "manage_position now s = Inr s'"
  shows "daily_pnl s' - sum_list (map td_pnl (trade_log s'))
       = daily_pnl s - sum_list (map td_pnl (trade_log s))"
  using assms close_position_pnl [of now _ s s']
  by (auto simp: manage_position_def split: option.splits if_splits)

lemma step_pnl:
  assumes "step s s'"
  shows "daily_pnl s' - sum_list (map td_pnl (trade_log s'))
       = daily_pnl s - sum_list (map td_pnl (trade_log s))"
  using assms
  by (induction rule: step.induct)
     (simp_all add: update_market_data_frame calculate_indicators_frame
        manage_position_pnl close_position_pnl execute_trade_frame)

text \<open>
  An open position has a price to be compared with: from a new strategy on, no method
  leaves a position without \<open>current_price\<close>.
\<close>

lemma step_position_price:
  assumes "step s s'" and "position s \<noteq> None \<longrightarrow> current_price s \<noteq> None"
  shows "position s' \<noteq> None \<longrightarrow> current_price s' \<noteq> None"
  using assms
proof (induction rule: step.induct)
  case (step_trade now s s')
  then show ?case
    using execute_trade_frame(2,5) [OF step_trade.hyps] evaluate_entry_True(2) [of now s]
    by auto
next
  case (step_manage now s s')
  then show ?case using manage_position_frame(3,5) [OF step_manage.hyps] by auto
qed (simp_all add: update_market_data_frame calculate_indicators_frame close_position_frame)

lemma open_position_has_price:
  assumes "step\<^sup>*\<^sup>* (init i name cfg) s" and "position s \<noteq> None"
  shows "current_price s \<noteq> None"
proof -
  from assms(1) have "position s \<noteq> None \<longrightarrow> current_price s \<noteq> None"
  proof (induction rule: rtranclp_induct)
    case base
    show ?case by (simp add: init_def)
  next
    case (step y z)
    then show ?case using step_position_price by blast
  qed
  with assms(2) show ?thesis by simp
qed

subsection \<open>The example states\<close>

lemma length_tail: "length (tail n xs) = min n (length xs)"
  by (simp add: tail_def)

lemma tail_all: "length xs \<le> n \<Longrightarrow> tail n xs = xs"
  by (simp add: tail_def)

lemma tail_snoc: "0 < n \<Longrightarrow> tail n (xs @ [x]) \<noteq> [] \<and> last (tail n (xs @ [x])) = x"
  by (simp add: tail_def)

text \<open>Feeding the same bar \<open>n\<close> times to a new strategy, \<open>n\<close> short of the warm-up.\<close>

lemma feed_before_warmup:
  "n < max_period cfg \<Longrightarrow>
     foldl (update_market_data ta) (init i name cfg) (replicate n b)
       = (init i name cfg)\<lparr> historical_data := replicate n (0, b),
            current_price := (if n = 0 then None else Some (bar_close b)) \<rparr>"
proof (induction n)
  case 0
  show ?case by (simp add: init_def)
next
  case (Suc n)
  then have IH: "foldl (update_market_data ta) (init i name cfg) (replicate n b)
       = (init i name cfg)\<lparr> historical_data := replicate n (0, b),
            current_price := (if n = 0 then None else Some (bar_close b)) \<rparr>"
    by simp
  have split: "replicate (Suc n) b = replicate n b @ [b]"
    by (simp add: replicate_append_same)
  have rows: "replicate n (0::int, b) @ [(0, b)] = replicate (Suc n) (0, b)"
    by (simp add: replicate_append_same)
  show ?case
    unfolding split foldl_append IH
    using Suc.prems
    by (simp add: update_market_data_def update_market_data_run_def
        calculate_indicators_run_def init_def tail_all rows del: replicate_Suc)
qed

lemma warm_reachable: "step\<^sup>*\<^sup>* (init rejecting_ib ''AAPL'' defaults) warm"
proof -
  have eq: "warm = foldl (update_market_data flat_talib) (init rejecting_ib ''AAPL'' defaults)
                 (replicate 19 (bar_at 35000 52))"
    by (subst feed_before_warmup) (simp_all add: max_period_def defaults_def warm_def bar_at_def)
  show ?thesis unfolding eq by (rule steps_foldl)
qed

lemma ranging_reachable: "step\<^sup>*\<^sup>* (init rejecting_ib ''AAPL'' defaults) ranging"
  unfolding ranging_def using warm_reachable step_bar by (rule rtranclp.rtrancl_into_rtrancl)


lemma warm_fields:
  "config warm = defaults" "ib warm = rejecting_ib" "position warm = None"
  "historical_data warm = replicate 19 (0, bar_at 35000 52)" "adx warm = None"
  "bollinger warm = None" "rsi warm = None" "atr warm = None" "trades_today warm = 0"
  "daily_pnl warm = 0" "symbol warm = ''AAPL''" "last_trade warm = None"
  "trade_log warm = []"
  by (simp_all add: warm_def init_def)

lemma ranging_fields:
  "position ranging = None" "current_price ranging = Some 49" "trades_today ranging = 0"
  "daily_pnl ranging = 0" "config ranging = defaults" "ib ranging = rejecting_ib"
  "symbol ranging = ''AAPL''" "last_trade ranging = None" "trade_log ranging = []"
  by (simp_all add: ranging_def update_market_data_frame warm_fields bar_at_def)

lemma holding_fields:
  "position (holding c) = Some example_position" "current_price (holding c) = Some c"
  "daily_pnl (holding c) = 0" "trades_today (holding c) = 1" "trade_log (holding c) = []"
  "ib (holding c) = rejecting_ib" "symbol (holding c) = ''AAPL''"
  by (simp_all add: holding_def ranging_fields)

text \<open>
  The indicators after the twentieth bar: computed by the double, on the index of the
  frame.
\<close>

lemma computed_after_warmup:
  "adx (update_market_data (talib_double v) warm b) \<noteq> None"
  "atr (update_market_data (talib_double v) warm b) \<noteq> None"
  "map_option (\<lambda>ser. last (ser_values ser)) (adx (update_market_data (talib_double v) warm b))
     = Some (Num 15)"
  "map_option (\<lambda>ser. last (ser_values ser)) (rsi (update_market_data (talib_double v) warm b))
     = Some (Num 25)"
  "map_option (\<lambda>ser. last (ser_values ser)) (atr (update_market_data (talib_double v) warm b))
     = Some (Num v)"
  "map_option (\<lambda>bb. last (ser_values (bb_lower bb)))
     (bollinger (update_market_data (talib_double v) warm b)) = Some (Num (bar_close b - 2))"
  by (simp_all add: update_market_data_def update_market_data_run_def
      calculate_indicators_run_def warm_fields max_period_def defaults_def tail_def
      talib_double_def column_def Let_def)

subsection \<open>Entry evaluation\<close>

text \<open>
  C10. Whatever the indicators, the price, the clock and the counters are,
  \<^verbatim>\<open>evaluate_entry\<close> returns \<^verbatim>\<open>False\<close> while a position exists: the position is
  the first thing it looks at.
\<close>

theorem no_entry_while_position:
  "position s = Some p \<Longrightarrow> evaluate_entry now s = Inr False"
  by (simp add: evaluate_entry_def)

theorem no_entry_while_position_witness:
  "position (holding 49) = Some example_position
   \<and> evaluate_entry 36000 (holding 49) = Inr False"
  using no_entry_while_position [of "holding 49" example_position 36000]
  by (simp add: holding_fields)

text \<open>
  Until the window holds as many bars as the largest of the ADX, Bollinger and RSI
  periods, \<^verbatim>\<open>update_market_data\<close> leaves every indicator of a new strategy at
  \<^verbatim>\<open>None\<close>.
\<close>

lemma warmup_invariant:
  "length bars < max_period cfg \<Longrightarrow>
     config (foldl (update_market_data ta) (init i name cfg) bars) = cfg
   \<and> position (foldl (update_market_data ta) (init i name cfg) bars) = None
   \<and> adx (foldl (update_market_data ta) (init i name cfg) bars) = None
   \<and> bollinger (foldl (update_market_data ta) (init i name cfg) bars) = None
   \<and> rsi (foldl (update_market_data ta) (init i name cfg) bars) = None
   \<and> atr (foldl (update_market_data ta) (init i name cfg) bars) = None
   \<and> length (historical_data (foldl (update_market_data ta) (init i name cfg) bars))
       = length bars"
proof (induction bars rule: rev_induct)
  case Nil
  then show ?case by (simp add: init_def)
next
  case (snoc b bars)
  then show ?case
    by (simp add: update_market_data_def update_market_data_run_def
        calculate_indicators_run_def tail_def)
qed

text \<open>
  C2, where the code departs from it. The claim: for a window shorter than the largest
  indicator period every indicator is undefined, and \<^verbatim>\<open>evaluate_entry\<close> with an
  undefined indicator returns \<^verbatim>\<open>False\<close> and never fails. In the code the indicators
  of such a window are \<^verbatim>\<open>None\<close> and \<^verbatim>\<open>evaluate_entry\<close> subscripts them: the call
  raises \<^verbatim>\<open>TypeError\<close>.
\<close>

theorem evaluate_entry_raises_before_warmup:
  assumes "length bars < max_period cfg"
  shows "evaluate_entry now (foldl (update_market_data ta) (init i name cfg) bars)
           = Inl TypeError"
  using warmup_invariant [OF assms, of ta i name] by (simp add: evaluate_entry_def)

theorem evaluate_entry_raises_before_warmup_witness:
  "length [bar_at 36000 49] < max_period defaults
   \<and> evaluate_entry 36000 (update_market_data flat_talib (init rejecting_ib ''AAPL'' defaults)
         (bar_at 36000 49)) = Inl TypeError"
  using evaluate_entry_raises_before_warmup
    [of "[bar_at 36000 49]" defaults 36000 flat_talib rejecting_ib "''AAPL''"]
  by (simp add: max_period_def defaults_def)


subsection \<open>Position sizing\<close>

lemma untraded_position_size:
  assumes "untraded i s" and "account_summary i = Some equity # rest"
  shows "calculate_position_size s price
           = (if atr s = None then Inl TypeError else Inl KeyError)"
  using assms
  by (auto simp: untraded_def calculate_position_size_def zero_labelled_opt_def
      getitem_zero_labelled split: option.splits)



text \<open>
  C7, where the code departs from it. The claim: the position size is
  \<open>floor ((equity * risk_per_trade_pct) / (volatility * stop_loss_atr_multiplier))\<close>,
  333 for equity 100000, risk 0.01, volatility 2 and multiplier 1.5. On a strategy
  driven through its methods \<^verbatim>\<open>calculate_position_size\<close> never returns a size: it
  raises on the account summary, on the indicator that is still \<^verbatim>\<open>None\<close> or on the
  label \<open>- 1\<close> that the series does not have.
\<close>

theorem no_position_size_is_computed:
  assumes "step\<^sup>*\<^sup>* (init i name cfg) s"
  shows "(\<exists>e. calculate_position_size s price = Inl e)
       \<and> (\<forall>equity rest. account_summary i = Some equity # rest \<longrightarrow>
            calculate_position_size s price
              = (if atr s = None then Inl TypeError else Inl KeyError))"
proof -
  have u: "untraded i s" using assms by (rule untraded_reachable)
  have known: "calculate_position_size s price
              = (if atr s = None then Inl TypeError else Inl KeyError)"
    if "account_summary i = Some equity # rest" for equity rest
    using untraded_position_size [OF u that] .
  have "\<exists>e. calculate_position_size s price = Inl e"
  proof (cases "account_summary i")
    case Nil
    with u show ?thesis by (simp add: calculate_position_size_def untraded_def)
  next
    case (Cons item rest)
    show ?thesis
    proof (cases item)
      case None
      with Cons u show ?thesis by (simp add: calculate_position_size_def untraded_def)
    next
      case (Some equity)
      with Cons known [of equity rest] show ?thesis by simp
    qed
  qed
  with known show ?thesis by blast
qed

theorem no_position_size_is_computed_witness:
  "step\<^sup>*\<^sup>* (init rejecting_ib ''AAPL'' defaults) ranging
   \<and> account_summary rejecting_ib = [Some 100000]
   \<and> map_option (\<lambda>ser. last (ser_values ser)) (atr ranging) = Some (Num 2)
   \<and> \<lfloor>(100000 * risk_per_trade_pct (config ranging))
        / (2 * stop_loss_atr_multiplier (config ranging))\<rfloor> = 333
   \<and> calculate_position_size ranging (Some 49) = Inl KeyError"
proof -
  note computed = computed_after_warmup [of 2 "bar_at 36000 49",
      folded flat_talib_def, folded ranging_def]
  have acc: "account_summary rejecting_ib = [Some 100000]"
    by (simp add: rejecting_ib_def)
  from no_position_size_is_computed [OF ranging_reachable, of "Some 49"] acc computed
  have "calculate_position_size ranging (Some 49) = Inl KeyError"
    by auto
  with ranging_reachable acc computed show ?thesis
    by (simp add: ranging_fields defaults_def)
qed

text \<open>
  With the stop distance in hand the method does not check it either: a row labelled
  \<open>- 1\<close> gives the lookup a value, and a value of zero reaches the division.
\<close>

lemma unguarded_division:
  "calculate_position_size
     (flat_market\<lparr> atr := Some \<lparr> ser_index = [- 1], ser_values = [Num 0] \<rparr> \<rparr>) price
     = Inl OverflowError"
  by (simp add: calculate_position_size_def getitem_def floor_div_def flat_market_def
      update_market_data_frame warm_fields rejecting_ib_def defaults_def)

subsection \<open>Orders and the gateway\<close>



text \<open>
  The text of \<^verbatim>\<open>execute_trade\<close> after the lookups never reads a reply: with another
  gateway the call ends the same way, in the same strategy but for the gateway.
\<close>

lemma with_reply_reads:
  "evaluate_entry now (with_reply r s) = evaluate_entry now s"
  "calculate_position_size (with_reply r s) price = calculate_position_size s price"
  "current_price (with_reply r s) = current_price s"
  "atr (with_reply r s) = atr s"
  "config (with_reply r s) = config s"
  by (simp_all add: with_reply_def evaluate_entry_def calculate_position_size_def Let_def
      cong: option.case_cong sum.case_cong lookup.case_cong list.case_cong if_cong)

lemma execute_trade_ignores_reply:
  "execute_trade now (with_reply r s) = map_sum id (with_reply r) (execute_trade now s)"
proof (cases "evaluate_entry now s")
  case (Inl e)
  then show ?thesis by (simp add: execute_trade_def with_reply_reads)
next
  case (Inr enter)
  show ?thesis
  proof (cases "calculate_position_size s (current_price s)")
    case (Inl e)
    with Inr show ?thesis by (cases enter) (simp_all add: execute_trade_def with_reply_reads)
  next
    case size: (Inr qty)
    from Inr size show ?thesis
      by (cases enter;
          simp add: execute_trade_def with_reply_reads placeOrder_def Let_def
            split: option.splits lookup.splits;
          simp add: with_reply_def)
  qed
qed

subsection \<open>The daily trade limit\<close>

lemma blocked_entry:
  assumes "max_trades_per_day (config s) \<le> trades_today s"
  shows "evaluate_entry now s \<noteq> Inr True"
  using assms evaluate_entry_True(3) [of now s] by auto

lemma blocked_trade:
  assumes "max_trades_per_day (config s) \<le> trades_today s"
    and "execute_trade now s = Inr s'"
  shows "s' = s"
  using execute_trade_frame(5) [OF assms(2)] blocked_entry [OF assms(1), of now] by auto

text \<open>
  C3, as the code has it. The claim: once \<open>trades_today\<close> has reached
  \<open>max_trades_per_day\<close>, entry is refused until \<^verbatim>\<open>reset_for_new_day\<close>, which zeroes
  \<open>trades_today\<close> and \<open>daily_pnl\<close> once per trading day. The class has no such method
  and nothing else resets the counters. Over any sequence of method calls
  \<open>trades_today\<close> never decreases, \<open>daily_pnl\<close> changes only by the pnl of the trades
  closed, and once the limit is reached it stays reached: \<^verbatim>\<open>evaluate_entry\<close> never
  returns \<^verbatim>\<open>True\<close> again and \<^verbatim>\<open>execute_trade\<close> changes nothing.
\<close>

theorem trade_limit_never_lifts:
  assumes "step\<^sup>*\<^sup>* s s'"
  shows "trades_today s \<le> trades_today s'
       \<and> daily_pnl s' - sum_list (map td_pnl (trade_log s'))
           = daily_pnl s - sum_list (map td_pnl (trade_log s))
       \<and> (max_trades_per_day (config s) \<le> trades_today s \<longrightarrow>
            trades_today s' = trades_today s
          \<and> max_trades_per_day (config s') \<le> trades_today s'
          \<and> evaluate_entry now s' \<noteq> Inr True
          \<and> (\<forall>s''. execute_trade now s' = Inr s'' \<longrightarrow> s'' = s'))"
  using assms
proof (induction rule: rtranclp_induct)
  case base
  show ?case using blocked_entry [of s now] blocked_trade [of s now] by auto
next
  case (step y z)
  have cfg: "config y = config s"
    using step.hyps(1) by (induction rule: rtranclp_induct) (simp_all add: step_frame(1))
  from step.IH step_frame [OF step.hyps(2)] step_pnl [OF step.hyps(2)] cfg
  have "trades_today s \<le> trades_today z"
    and "daily_pnl z - sum_list (map td_pnl (trade_log z))
           = daily_pnl s - sum_list (map td_pnl (trade_log s))"
    and "max_trades_per_day (config s) \<le> trades_today s \<Longrightarrow>
           trades_today z = trades_today s \<and> max_trades_per_day (config z) \<le> trades_today z"
    by auto
  then show ?case using blocked_entry [of z now] blocked_trade [of z now] by auto
qed

theorem trade_limit_never_lifts_witness:
  "step\<^sup>*\<^sup>* exhausted (update_market_data flat_talib exhausted (bar_at 122400 49))
   \<and> max_trades_per_day (config exhausted) \<le> trades_today exhausted
   \<and> trades_today (update_market_data flat_talib exhausted (bar_at 122400 49)) = 5
   \<and> evaluate_entry 122400 (update_market_data flat_talib exhausted (bar_at 122400 49))
        \<noteq> Inr True"
proof -
  have steps: "step\<^sup>*\<^sup>* exhausted (update_market_data flat_talib exhausted (bar_at 122400 49))"
    by (rule r_into_rtranclp) (rule step_bar)
  have full: "max_trades_per_day (config exhausted) \<le> trades_today exhausted"
    by (simp add: exhausted_def ranging_fields defaults_def)
  from trade_limit_never_lifts [OF steps, of 122400] full steps show ?thesis
    by (simp add: exhausted_def)
qed

text \<open>
  Five trades and a loss of 100 on one day; the bar of 10:00 on the next day arrives.
  The counters keep their values. With the limit reached and no indicators yet the
  call does not return \<^verbatim>\<open>False\<close>: it raises.
\<close>

theorem trade_limit_counterexample:
  "trades_today (update_market_data flat_talib exhausted (bar_at 122400 49)) = 5
   \<and> daily_pnl (update_market_data flat_talib exhausted (bar_at 122400 49)) = - 100
   \<and> evaluate_entry 36000 ((init rejecting_ib ''AAPL'' defaults)\<lparr> trades_today := 5 \<rparr>)
        = Inl TypeError"
  by (simp add: evaluate_entry_def exhausted_def update_market_data_frame init_def)

subsection \<open>The window of bars\<close>

lemma window_length:
  "length (historical_data (update_market_data ta s b))
     = min (max_period (config s) + 20) (length (historical_data s) + 1)"
  by (simp add: update_market_data_frame length_tail)

text \<open>
  C5, as the code has it. The claim: a bar whose timestamp is not after that of the
  last retained bar is dropped, the indicators are not recomputed from it and the
  cycle is skipped. \<^verbatim>\<open>update_market_data\<close> never reads the timestamp: every bar becomes
  the last row of the window and the current price, and when the window is long
  enough and the four TA-Lib calls return, the call returns and all four indicators
  are the results of TA-Lib on the window that ends in that bar.
\<close>

theorem update_market_data_keeps_every_bar:
  "historical_data (update_market_data ta s b)
     = tail (max_period (config s) + 20) (historical_data s @ [(0, b)])
   \<and> historical_data (update_market_data ta s b) \<noteq> []
   \<and> last (historical_data (update_market_data ta s b)) = (0, b)
   \<and> current_price (update_market_data ta s b) = Some (bar_close b)
   \<and> (max_period (config s) \<le> length (historical_data (update_market_data ta s b))
        \<and> talib_ADX ta (column bar_high (historical_data (update_market_data ta s b)))
            (column bar_low (historical_data (update_market_data ta s b)))
            (column bar_close (historical_data (update_market_data ta s b)))
            (adx_period (config s)) = Inr trend
        \<and> talib_BBANDS ta (column bar_close (historical_data (update_market_data ta s b)))
            (bollinger_ma_period (config s)) (bollinger_std_dev (config s))
            (bollinger_std_dev (config s)) = Inr (upper, middle, lower)
        \<and> talib_RSI ta (column bar_close (historical_data (update_market_data ta s b)))
            (rsi_period (config s)) = Inr momentum
        \<and> talib_ATR ta (column bar_high (historical_data (update_market_data ta s b)))
            (column bar_low (historical_data (update_market_data ta s b)))
            (column bar_close (historical_data (update_market_data ta s b)))
            (atr_period (config s)) = Inr volatility
      \<longrightarrow>
        fst (update_market_data_run ta s b) = None
      \<and> adx (update_market_data ta s b)
          = Some \<lparr> ser_index = frame_index (historical_data (update_market_data ta s b)),
                   ser_values = trend \<rparr>
      \<and> bollinger (update_market_data ta s b)
          = Some \<lparr> bb_upper =
                     \<lparr> ser_index = frame_index (historical_data (update_market_data ta s b)),
                       ser_values = upper \<rparr>,
                   bb_middle =
                     \<lparr> ser_index = frame_index (historical_data (update_market_data ta s b)),
                       ser_values = middle \<rparr>,
                   bb_lower =
                     \<lparr> ser_index = frame_index (historical_data (update_market_data ta s b)),
                       ser_values = lower \<rparr> \<rparr>
      \<and> rsi (update_market_data ta s b)
          = Some \<lparr> ser_index = frame_index (historical_data (update_market_data ta s b)),
                   ser_values = momentum \<rparr>
      \<and> atr (update_market_data ta s b)
          = Some \<lparr> ser_index = frame_index (historical_data (update_market_data ta s b)),
                   ser_values = volatility \<rparr>)"
  using tail_snoc [of "max_period (config s) + 20" "historical_data s" "(0, b)"]
  by (simp add: update_market_data_frame)
     (simp add: update_market_data_def update_market_data_run_def
        calculate_indicators_run_def Let_def)

theorem update_market_data_keeps_every_bar_witness:
  "bar_time (bar_at 34000 49) < bar_time (snd (last (historical_data warm)))
   \<and> max_period (config warm) \<le> length (historical_data disordered)
   \<and> talib_ADX flat_talib (column bar_high (historical_data disordered))
        (column bar_low (historical_data disordered))
        (column bar_close (historical_data disordered)) (adx_period (config warm))
      = Inr (map (\<lambda>c. Num 15) (column bar_close (historical_data disordered)))
   \<and> talib_BBANDS flat_talib (column bar_close (historical_data disordered))
        (bollinger_ma_period (config warm)) (bollinger_std_dev (config warm))
        (bollinger_std_dev (config warm))
      = Inr (map (\<lambda>c. Num (c + 2)) (column bar_close (historical_data disordered)),
             map Num (column bar_close (historical_data disordered)),
             map (\<lambda>c. Num (c - 2)) (column bar_close (historical_data disordered)))
   \<and> talib_RSI flat_talib (column bar_close (historical_data disordered))
        (rsi_period (config warm))
      = Inr (map (\<lambda>c. Num 25) (column bar_close (historical_data disordered)))
   \<and> talib_ATR flat_talib (column bar_high (historical_data disordered))
        (column bar_low (historical_data disordered))
        (column bar_close (historical_data disordered)) (atr_period (config warm))
      = Inr (map (\<lambda>c. Num 2) (column bar_close (historical_data disordered)))
   \<and> last (historical_data disordered) = (0, bar_at 34000 49)
   \<and> current_price disordered = Some (bar_close (bar_at 34000 49))
   \<and> fst (update_market_data_run flat_talib warm (bar_at 34000 49)) = None
   \<and> adx disordered
       = Some \<lparr> ser_index = frame_index (historical_data disordered),
                ser_values = map (\<lambda>c. Num 15) (column bar_close (historical_data disordered)) \<rparr>
   \<and> bollinger disordered
       = Some \<lparr> bb_upper = \<lparr> ser_index = frame_index (historical_data disordered),
                   ser_values = map (\<lambda>c. Num (c + 2))
                                  (column bar_close (historical_data disordered)) \<rparr>,
                bb_middle = \<lparr> ser_index = frame_index (historical_data disordered),
                   ser_values = map Num (column bar_close (historical_data disordered)) \<rparr>,
                bb_lower = \<lparr> ser_index = frame_index (historical_data disordered),
                   ser_values = map (\<lambda>c. Num (c - 2))
                                  (column bar_close (historical_data disordered)) \<rparr> \<rparr>
   \<and> rsi disordered
       = Some \<lparr> ser_index = frame_index (historical_data disordered),
                ser_values = map (\<lambda>c. Num 25) (column bar_close (historical_data disordered)) \<rparr>
   \<and> atr disordered
       = Some \<lparr> ser_index = frame_index (historical_data disordered),
                ser_values = map (\<lambda>c. Num 2) (column bar_close (historical_data disordered)) \<rparr>"
proof -
  let ?closes = "column bar_close (historical_data disordered)"
  have rows: "historical_data disordered
                = replicate 19 (0, bar_at 35000 52) @ [(0, bar_at 34000 49)]"
    by (simp add: disordered_def update_market_data_frame warm_fields max_period_def
        defaults_def tail_all)
  have long: "max_period (config warm) \<le> length (historical_data disordered)"
    by (simp add: rows warm_fields max_period_def defaults_def)
  have early: "bar_time (bar_at 34000 49) < bar_time (snd (last (historical_data warm)))"
    by (simp add: warm_fields bar_at_def)
  have calls:
    "talib_ADX flat_talib (column bar_high (historical_data disordered))
        (column bar_low (historical_data disordered)) ?closes (adx_period (config warm))
      = Inr (map (\<lambda>c. Num 15) ?closes)"
    "talib_BBANDS flat_talib ?closes (bollinger_ma_period (config warm))
        (bollinger_std_dev (config warm)) (bollinger_std_dev (config warm))
      = Inr (map (\<lambda>c. Num (c + 2)) ?closes, map Num ?closes, map (\<lambda>c. Num (c - 2)) ?closes)"
    "talib_RSI flat_talib ?closes (rsi_period (config warm)) = Inr (map (\<lambda>c. Num 25) ?closes)"
    "talib_ATR flat_talib (column bar_high (historical_data disordered))
        (column bar_low (historical_data disordered)) ?closes (atr_period (config warm))
      = Inr (map (\<lambda>c. Num 2) ?closes)"
    by (simp_all add: flat_talib_def talib_double_def)
  note kept = update_market_data_keeps_every_bar
    [of flat_talib warm "bar_at 34000 49" "map (\<lambda>c. Num 15) ?closes"
        "map (\<lambda>c. Num (c + 2)) ?closes" "map Num ?closes" "map (\<lambda>c. Num (c - 2)) ?closes"
        "map (\<lambda>c. Num 25) ?closes" "map (\<lambda>c. Num 2) ?closes", folded disordered_def]
  from kept have basics: "last (historical_data disordered) = (0, bar_at 34000 49)"
    "current_price disordered = Some (bar_close (bar_at 34000 49))"
    by blast+
  from kept long calls have computed:
    "fst (update_market_data_run flat_talib warm (bar_at 34000 49)) = None"
    "adx disordered = Some \<lparr> ser_index = frame_index (historical_data disordered),
                      ser_values = map (\<lambda>c. Num 15) ?closes \<rparr>"
    "bollinger disordered
         = Some \<lparr> bb_upper = \<lparr> ser_index = frame_index (historical_data disordered),
                               ser_values = map (\<lambda>c. Num (c + 2)) ?closes \<rparr>,
                  bb_middle = \<lparr> ser_index = frame_index (historical_data disordered),
                                ser_values = map Num ?closes \<rparr>,
                  bb_lower = \<lparr> ser_index = frame_index (historical_data disordered),
                               ser_values = map (\<lambda>c. Num (c - 2)) ?closes \<rparr> \<rparr>"
    "rsi disordered = Some \<lparr> ser_index = frame_index (historical_data disordered),
                      ser_values = map (\<lambda>c. Num 25) ?closes \<rparr>"
    "atr disordered = Some \<lparr> ser_index = frame_index (historical_data disordered),
                      ser_values = map (\<lambda>c. Num 2) ?closes \<rparr>"
    by blast+
  show ?thesis
    by (intro conjI) (fact early long calls basics computed)+
qed

text \<open>
  Nineteen bars stamped 35000, then a bar stamped 34000: it is appended as the
  twentieth, it sets the price, and the indicators, undefined before, are computed.
\<close>

theorem out_of_order_bar_counterexample:
  "bar_time (bar_at 34000 49) < bar_time (snd (last (historical_data warm)))
   \<and> length (historical_data warm) = 19
   \<and> length (historical_data disordered) = 20
   \<and> bar_time (snd (last (historical_data disordered))) = 34000
   \<and> current_price disordered = Some 49
   \<and> adx warm = None
   \<and> map_option (\<lambda>ser. last (ser_values ser)) (adx disordered) = Some (Num 15)"
  using computed_after_warmup(3) [of 2 "bar_at 34000 49"]
  by (simp add: disordered_def update_market_data_frame warm_fields max_period_def
      defaults_def tail_def bar_at_def flat_talib_def)

text \<open>
  When TA-Lib refuses its arguments the call raises after the window and the price
  have been written, and the indicators stay as they were.
\<close>

lemma update_market_data_when_talib_raises:
  "fst (update_market_data_run refusing_talib warm (bar_at 36000 49)) = Some PyException"
  "length (historical_data (update_market_data refusing_talib warm (bar_at 36000 49))) = 20"
  "current_price (update_market_data refusing_talib warm (bar_at 36000 49)) = Some 49"
  "adx (update_market_data refusing_talib warm (bar_at 36000 49)) = None"
  by (simp_all add: update_market_data_def update_market_data_run_def
      calculate_indicators_run_def warm_fields max_period_def defaults_def tail_def
      refusing_talib_def bar_at_def Let_def)

text \<open>
  C6. After every \<^verbatim>\<open>update_market_data\<close> the window holds at most the largest of the
  four indicator periods (ADX, Bollinger, RSI and ATR) plus 20 bars. The code caps the
  window at the largest of the first three plus 20 (\<open>window_length\<close>), which is never
  more.
\<close>

theorem window_is_capped:
  "length (historical_data (update_market_data ta s b))
     \<le> max (max (max (adx_period (config s)) (bollinger_ma_period (config s)))
                 (rsi_period (config s))) (atr_period (config s)) + 20"
  unfolding window_length max_period_def by linarith

subsection \<open>Closing and managing the position\<close>

text \<open>
  C8. Closing an open position at the current price, the exit price, computes
  \<open>(exit_price - entry_price) * quantity\<close>, adds it to \<open>daily_pnl\<close>, logs exactly one
  trade record, which carries the prices, the quantity, the pnl and the reason, and
  sets the position to \<^verbatim>\<open>None\<close>. Entry at 100, exit at 103 and 10 shares give 30.
\<close>

theorem close_position_books_trade:
  assumes "position s = Some p" and "current_price s = Some exit_price"
  shows "\<exists>s' d. close_position now why s = Inr s' \<and> position s' = None
     \<and> daily_pnl s' = daily_pnl s + (exit_price - entry_price p) * real_of_int (quantity p)
     \<and> last_trade s' = Some d \<and> trade_log s' = trade_log s @ [d]
     \<and> td_pnl d = (exit_price - entry_price p) * real_of_int (quantity p)
     \<and> td_entry_price d = entry_price p \<and> td_exit_price d = exit_price
     \<and> td_quantity d = quantity p \<and> td_reason d = why
     \<and> trades_today s' = trades_today s"
  using assms by (simp add: close_position_def Let_def)

theorem close_position_books_trade_witness:
  "position (holding 103) = Some example_position \<and> current_price (holding 103) = Some 103
   \<and> entry_price example_position = 100 \<and> quantity example_position = 10
   \<and> (\<exists>s' d. close_position 36600 ''target'' (holding 103) = Inr s' \<and> position s' = None
        \<and> daily_pnl s' = 30 \<and> last_trade s' = Some d \<and> trade_log s' = [d]
        \<and> td_pnl d = 30 \<and> td_reason d = ''target'')"
  using close_position_books_trade [of "holding 103" example_position 103 36600 "''target''"]
  by (auto simp: holding_fields example_position_def)

text \<open>
  C9. With a position open, \<^verbatim>\<open>manage_position\<close> tests the stop first: a price at or
  below the stop closes with reason stop, whether or not the target is reached too;
  otherwise a price at or above the target closes with reason target; otherwise
  nothing happens. Stop 98, target 105 and price 97 close with reason stop.
\<close>

theorem manage_position_stop_first:
  assumes "position s = Some p" and "current_price s = Some price"
  shows "(float_le price (stop_price p) \<longrightarrow>
            (\<exists>s' d. manage_position now s = Inr s' \<and> position s' = None
                \<and> last_trade s' = Some d \<and> td_reason d = ''stop''))
       \<and> (\<not> float_le price (stop_price p) \<and> target_price p \<le> price \<longrightarrow>
            (\<exists>s' d. manage_position now s = Inr s' \<and> position s' = None
                \<and> last_trade s' = Some d \<and> td_reason d = ''target''))
       \<and> (\<not> float_le price (stop_price p) \<and> \<not> target_price p \<le> price \<longrightarrow>
            manage_position now s = Inr s)"
  using assms by (simp add: manage_position_def close_position_def Let_def)

theorem manage_position_stop_first_witness:
  "position (holding 97) = Some example_position \<and> current_price (holding 97) = Some 97
   \<and> stop_price example_position = Num 98 \<and> target_price example_position = 105
   \<and> float_le 97 (stop_price example_position)
   \<and> (\<exists>s' d. manage_position 36600 (holding 97) = Inr s' \<and> position s' = None
         \<and> last_trade s' = Some d \<and> td_reason d = ''stop'')"
  using manage_position_stop_first [of "holding 97" example_position 97 36600]
  by (auto simp: holding_fields example_position_def)

text \<open>A price that is both at or below the stop and at or above the target: stop.\<close>

lemma manage_position_tie_break:
  "map_option (map_option td_reason \<circ> last_trade)
     (returned (manage_position 36600
        (ranging\<lparr> position := Some (example_position\<lparr> target_price := 95 \<rparr>),
                  current_price := Some 97 \<rparr>))) = Some (Some ''stop'')"
  by (simp add: manage_position_def close_position_def returned_def example_position_def
      Let_def)

text \<open>Between stop and target nothing happens; at the target the reason is target.\<close>

lemma manage_position_examples:
  "manage_position 36600 (holding 101) = Inr (holding 101)"
  "map_option (map_option td_reason \<circ> last_trade)
     (returned (manage_position 36600 (holding 105))) = Some (Some ''target'')"
  by (simp_all add: manage_position_def close_position_def returned_def holding_fields
      example_position_def Let_def)

end
